theory Spec2Isabelle
  imports Complex_Main "HOL-Library.AList"
begin

section \<open>Data model (types.ts)\<close>

text \<open>
  Timestamps are ISO-8601 strings in the source, always produced by \<^verbatim>\<open>toISOString\<close> and
  always compared after \<^verbatim>\<open>new Date(...)\<close>; they are modelled by the millisecond count they
  denote. A cached value is represented by its JSON text (what \<^verbatim>\<open>JSON.stringify(data)\<close>
  yields), a list of bytes, so that \<^verbatim>\<open>Buffer.byteLength\<close> is \<open>length\<close>. Record fields
  carry a short prefix where two interfaces of the source share a field name.
\<close>

type_synonym timestamp = int
type_synonym json = string

record cache_entry =
  e_data :: json
  e_createdAt :: timestamp
  e_lastAccessedAt :: timestamp
  e_expiresAt :: timestamp
  e_etag :: "string option"
  e_lastModified :: "string option"
  e_version :: "string option"
  e_size :: int

record manifest_entry =
  m_filePath :: string
  m_namespace :: string
  m_key :: string
  m_size :: int
  m_lastAccessedAt :: timestamp
  m_expiresAt :: timestamp

text \<open>
  \<^verbatim>\<open>entries: Record<string, ManifestEntry>\<close> is a JavaScript object: keys are unique and
  \<^verbatim>\<open>Object.entries\<close>/\<^verbatim>\<open>Object.values\<close> enumerate them in insertion order. It is an
  association list; assignment is \<open>AList.update\<close> (in place for a present key, appended
  for a new one), \<^verbatim>\<open>delete\<close> is \<open>AList.delete\<close>, lookup is \<open>map_of\<close>.
\<close>

record cache_manifest =
  version :: int
  totalSize :: int
  maxSize :: int
  entries :: "(string \<times> manifest_entry) list"
  lastCleanup :: "timestamp option"

record cache_config =
  cfg_namespace :: string
  cfg_defaultTTL :: "int option"
  cfg_defaultStaleWhileRevalidate :: "int option"
  cfg_maxEntrySize :: "int option"
  cfg_disabled :: "bool option"

record get_options =
  g_ttl :: "int option"
  g_staleWhileRevalidate :: "int option"

record set_options =
  s_ttl :: "int option"
  s_etag :: "string option"
  s_lastModified :: "string option"
  s_version :: "string option"


record cache_result =
  r_data :: "json option"
  r_hit :: bool
  r_stale :: bool
  r_needsRevalidation :: bool
  r_entry :: "cache_entry option"

record cleanup_result =
  entriesRemoved :: nat
  bytesFreed :: int
  newTotalSize :: int

section \<open>The file system under the cache root, and its failures\<close>

text \<open>
  One cache root directory is modelled. It holds \<^verbatim>\<open>manifest.json\<close>, the temporary files
  \<^verbatim>\<open>manifest.json.tmp.<pid>\<close> and, in one directory per namespace, the entry files. A file
  either parses as JSON of the expected shape or is \<open>Unparsable\<close> (corrupt or truncated
  bytes, on which \<^verbatim>\<open>JSON.parse\<close> throws). Namespaces are plain directory names, so an
  entry file never aliases the manifest, and a path names its file exactly (as on a
  case-sensitive file system).

  The environment \<open>env\<close> fixes the process id and which file-system calls fail: a failing
  \<^verbatim>\<open>writeFileSync\<close> either leaves the file as it was (\<open>Denied\<close>) or leaves a truncated
  file behind (\<open>Partial\<close>). Reads of existing files succeed. Directories are not
  modelled: the constructor and \<^verbatim>\<open>enable\<close> create the namespace directory of an enabled
  instance, and a write into a directory removed since is one of the failing writes.
\<close>

datatype 'a content = Json 'a | Unparsable

record fs =
  manifest_file :: "cache_manifest content option"
  temp_files :: "nat \<Rightarrow> cache_manifest content option"
  entry_files :: "string \<Rightarrow> cache_entry content option"

datatype path = ManifestPath | TempPath nat | EntryPath string

datatype fault = Denied | Partial

datatype error = IOError | SyntaxError | ProducerError string

record env =
  pid :: nat
  write_fault :: "path \<Rightarrow> fault option"
  rename_fails :: bool
  unlink_fails :: "path \<Rightarrow> bool"

definition no_faults :: "nat \<Rightarrow> env" where
  "no_faults p = \<lparr>pid = p, write_fault = (\<lambda>_. None), rename_fails = False,
                   unlink_fails = (\<lambda>_. False)\<rparr>"

fun writeFileSync :: "fault option \<Rightarrow> 'a \<Rightarrow> 'a content option \<Rightarrow> error option \<times> 'a content option" where
  "writeFileSync None content old = (None, Some (Json content))"
| "writeFileSync (Some Denied) content old = (Some IOError, old)"
| "writeFileSync (Some Partial) content old = (Some IOError, Some Unparsable)"

section \<open>PluginCache (cache.ts)\<close>

definition DEFAULT_MAX_SIZE :: int where "DEFAULT_MAX_SIZE = 500 * 1024 * 1024"
definition DEFAULT_MAX_ENTRY_SIZE :: int where "DEFAULT_MAX_ENTRY_SIZE = 10 * 1024 * 1024"
definition DEFAULT_TTL :: int where "DEFAULT_TTL = 300000"
definition DEFAULT_STALE_WHILE_REVALIDATE :: int where "DEFAULT_STALE_WHILE_REVALIDATE = 86400000"
definition MANIFEST_VERSION :: int where "MANIFEST_VERSION = 1"

record plugin_cache =
  namespace :: string
  defaultTTL :: int
  defaultSWR :: int
  maxEntrySize :: int
  disabled :: bool

definition orDefault :: "'a option \<Rightarrow> 'a \<Rightarrow> 'a" where
  "orDefault v d = (case v of Some x \<Rightarrow> x | None \<Rightarrow> d)"

definition PluginCache :: "cache_config \<Rightarrow> plugin_cache" where
  "PluginCache config =
     \<lparr>namespace = cfg_namespace config,
      defaultTTL = orDefault (cfg_defaultTTL config) DEFAULT_TTL,
      defaultSWR = orDefault (cfg_defaultStaleWhileRevalidate config) DEFAULT_STALE_WHILE_REVALIDATE,
      maxEntrySize = orDefault (cfg_maxEntrySize config) DEFAULT_MAX_ENTRY_SIZE,
      disabled = orDefault (cfg_disabled config) False\<rparr>"

definition emptyManifest :: cache_manifest where
  "emptyManifest =
     \<lparr>version = MANIFEST_VERSION, totalSize = 0, maxSize = DEFAULT_MAX_SIZE, entries = [],
      lastCleanup = None\<rparr>"

definition getManifest :: "fs \<Rightarrow> cache_manifest" where
  "getManifest s =
     (case manifest_file s of
        None \<Rightarrow> emptyManifest
      | Some Unparsable \<Rightarrow> emptyManifest
      | Some (Json manifest) \<Rightarrow> manifest)"

text \<open>The \<^verbatim>\<open>catch\<close> block of \<^verbatim>\<open>saveManifest\<close>: remove the temporary file if it
  exists, ignoring a failure of the removal.\<close>

definition removeTemp :: "env \<Rightarrow> fs \<Rightarrow> fs" where
  "removeTemp env s =
     (if temp_files s (pid env) \<noteq> None \<and> \<not> unlink_fails env (TempPath (pid env))
      then s\<lparr>temp_files := (temp_files s)(pid env := None)\<rparr>
      else s)"

definition saveManifest :: "env \<Rightarrow> cache_manifest \<Rightarrow> fs \<Rightarrow> error option \<times> fs" where
  "saveManifest env manifest s =
     (case writeFileSync (write_fault env (TempPath (pid env))) manifest (temp_files s (pid env)) of
        (Some err, t) \<Rightarrow> (Some err, removeTemp env (s\<lparr>temp_files := (temp_files s)(pid env := t)\<rparr>))
      | (None, t) \<Rightarrow>
          if rename_fails env
          then (Some IOError, removeTemp env (s\<lparr>temp_files := (temp_files s)(pid env := t)\<rparr>))
          else (None, s\<lparr>temp_files := (temp_files s)(pid env := None), manifest_file := t\<rparr>))"

text \<open>
  \<^verbatim>\<open>getFilePath\<close>: every character outside \<^verbatim>\<open>[a-zA-Z0-9_-]\<close> becomes an underscore. The
  path is written relative to the cache root.
\<close>

definition safeChar :: "char \<Rightarrow> bool" where
  "safeChar ch \<longleftrightarrow>
     ch \<in> set ''abcdefghijklmnopqrstuvwxyzABCDEFGHIJKLMNOPQRSTUVWXYZ0123456789_-''"

definition getFilePath :: "plugin_cache \<Rightarrow> string \<Rightarrow> string" where
  "getFilePath c k =
     namespace c @ ''/'' @ map (\<lambda>ch. if safeChar ch then ch else CHR ''_'') k @ ''.json''"

definition miss :: cache_result where
  "miss = \<lparr>r_data = None, r_hit = False, r_stale = False, r_needsRevalidation = True,
           r_entry = None\<rparr>"

text \<open>
  \<^verbatim>\<open>invalidate\<close>. The whole body after the existence check is inside \<^verbatim>\<open>try\<close>: a parse
  failure, a failing \<^verbatim>\<open>unlinkSync\<close> or a failing \<^verbatim>\<open>saveManifest\<close> all end in
  \<^verbatim>\<open>return false\<close>, with the effects made so far kept. The size subtracted from
  \<open>totalSize\<close> is the one read from the entry file.
\<close>

definition invalidate :: "env \<Rightarrow> plugin_cache \<Rightarrow> string \<Rightarrow> fs \<Rightarrow> bool \<times> fs" where
  "invalidate env c k s =
     (if disabled c then (False, s)
      else
        let filePath = getFilePath c k in
        case entry_files s filePath of
          None \<Rightarrow> (False, s)
        | Some Unparsable \<Rightarrow> (False, s)
        | Some (Json entry) \<Rightarrow>
            if unlink_fails env (EntryPath filePath) then (False, s)
            else
              let s1 = s\<lparr>entry_files := (entry_files s)(filePath := None)\<rparr>;
                  manifest = getManifest s1
              in case map_of (entries manifest) filePath of
                   None \<Rightarrow> (True, s1)
                 | Some _ \<Rightarrow>
                     (case saveManifest env
                             (manifest\<lparr>totalSize := totalSize manifest - e_size entry,
                                       entries := AList.delete filePath (entries manifest)\<rparr>) s1 of
                        (Some err, s2) \<Rightarrow> (False, s2)
                      | (None, s2) \<Rightarrow> (True, s2)))"

text \<open>
  \<^verbatim>\<open>get\<close>, read at the instant \<open>now\<close>. The source computes \<^verbatim>\<open>ttl\<close> from the options
  and never uses it; the binding is kept. Everything after the existence check is inside
  \<^verbatim>\<open>try\<close>, and the \<^verbatim>\<open>catch\<close> returns a miss.
\<close>

definition get :: "env \<Rightarrow> plugin_cache \<Rightarrow> timestamp \<Rightarrow> string \<Rightarrow> get_options \<Rightarrow> fs \<Rightarrow> cache_result \<times> fs" where
  "get env c now k options s =
     (if disabled c then (miss, s)
      else
        let filePath = getFilePath c k in
        case entry_files s filePath of
          None \<Rightarrow> (miss, s)
        | Some Unparsable \<Rightarrow> (miss, s)
        | Some (Json entry0) \<Rightarrow>
            let expiresAt = e_expiresAt entry0;
                ttl = orDefault (g_ttl options) (defaultTTL c);
                swr = orDefault (g_staleWhileRevalidate options) (defaultSWR c);
                entry = entry0\<lparr>e_lastAccessedAt := now\<rparr>
            in case writeFileSync (write_fault env (EntryPath filePath)) entry (entry_files s filePath) of
                 (Some err, f) \<Rightarrow> (miss, s\<lparr>entry_files := (entry_files s)(filePath := f)\<rparr>)
               | (None, f) \<Rightarrow>
                   let s1 = s\<lparr>entry_files := (entry_files s)(filePath := f)\<rparr>;
                       manifest = getManifest s1
                   in case (case map_of (entries manifest) filePath of
                              None \<Rightarrow> (None, s1)
                            | Some row \<Rightarrow>
                                saveManifest env
                                  (manifest\<lparr>entries :=
                                     AList.update filePath (row\<lparr>m_lastAccessedAt := now\<rparr>)
                                       (entries manifest)\<rparr>) s1) of
                        (Some err, s2) \<Rightarrow> (miss, s2)
                      | (None, s2) \<Rightarrow>
                          let isExpired = now > expiresAt;
                              swrExpiresAt = expiresAt + swr;
                              isWithinSWR = now \<le> swrExpiresAt
                          in if isExpired \<and> \<not> isWithinSWR
                             then (miss, snd (invalidate env c k s2))
                             else (\<lparr>r_data = Some (e_data entry), r_hit = True, r_stale = isExpired,
                                    r_needsRevalidation = isExpired, r_entry = Some entry\<rparr>, s2))"

section \<open>Eviction (cleanup.ts)\<close>

text \<open>
  The thresholds are JavaScript doubles in the source (\<^verbatim>\<open>maxSize * 0.9\<close>); the model
  computes them exactly, over the reals.
\<close>

definition CLEANUP_THRESHOLD :: real where "CLEANUP_THRESHOLD = 9 / 10"
definition CLEANUP_TARGET :: real where "CLEANUP_TARGET = 7 / 10"

text \<open>\<^verbatim>\<open>manifest.maxSize || DEFAULT_MAX_SIZE\<close>: zero is falsy.\<close>

definition maxSizeOrDefault :: "cache_manifest \<Rightarrow> int" where
  "maxSizeOrDefault manifest = (if maxSize manifest = 0 then DEFAULT_MAX_SIZE else maxSize manifest)"

text \<open>
  The functions of cleanup.ts open the manifest with a bare
  \<^verbatim>\<open>JSON.parse(fs.readFileSync(manifestPath))\<close> after an existence check (a parse failure
  is thrown, not caught), and write it back with a bare
  \<^verbatim>\<open>fs.writeFileSync(manifestPath, ...)\<close>.
\<close>

definition readManifestFile :: "fs \<Rightarrow> error + cache_manifest option" where
  "readManifestFile s =
     (case manifest_file s of
        None \<Rightarrow> Inr None
      | Some Unparsable \<Rightarrow> Inl SyntaxError
      | Some (Json manifest) \<Rightarrow> Inr (Some manifest))"

definition writeManifestFile :: "env \<Rightarrow> cache_manifest \<Rightarrow> fs \<Rightarrow> error option \<times> fs" where
  "writeManifestFile env manifest s =
     (case writeFileSync (write_fault env ManifestPath) manifest (manifest_file s) of
        (err, f) \<Rightarrow> (err, s\<lparr>manifest_file := f\<rparr>))"

text \<open>\<^verbatim>\<open>if (fs.existsSync(p)) fs.unlinkSync(p)\<close>; \<open>None\<close> when \<^verbatim>\<open>unlinkSync\<close> throws.\<close>

definition unlinkIfExists :: "env \<Rightarrow> string \<Rightarrow> fs \<Rightarrow> fs option" where
  "unlinkIfExists env filePath s =
     (if entry_files s filePath = None then Some s
      else if unlink_fails env (EntryPath filePath) then None
      else Some (s\<lparr>entry_files := (entry_files s)(filePath := None)\<rparr>))"

definition noCleanup :: cleanup_result where
  "noCleanup = \<lparr>entriesRemoved = 0, bytesFreed = 0, newTotalSize = 0\<rparr>"

text \<open>
  The loop of \<^verbatim>\<open>performCleanup\<close> over the entries sorted by \<^verbatim>\<open>lastAccessedAt\<close> (the
  sort is stable in the source, as \<open>sort_key\<close> is). The loop state is
  (manifest, file system, currentSize, entriesRemoved, bytesFreed).
\<close>

fun performCleanup_loop ::
  "env \<Rightarrow> real \<Rightarrow> manifest_entry list \<Rightarrow> cache_manifest \<times> fs \<times> int \<times> nat \<times> int
     \<Rightarrow> cache_manifest \<times> fs \<times> int \<times> nat \<times> int" where
  "performCleanup_loop env targetSize [] st = st"
| "performCleanup_loop env targetSize (entry # rest) (manifest, s, currentSize, removed, freed) =
     (if real_of_int currentSize \<le> targetSize then (manifest, s, currentSize, removed, freed)
      else case unlinkIfExists env (m_filePath entry) s of
             None \<Rightarrow> performCleanup_loop env targetSize rest (manifest, s, currentSize, removed, freed)
           | Some s' \<Rightarrow>
               performCleanup_loop env targetSize rest
                 (manifest\<lparr>entries := AList.delete (m_filePath entry) (entries manifest)\<rparr>, s',
                  currentSize - m_size entry, Suc removed, freed + m_size entry))"

definition performCleanup ::
  "env \<Rightarrow> timestamp \<Rightarrow> cache_manifest option \<Rightarrow> fs \<Rightarrow> (error + cleanup_result) \<times> fs" where
  "performCleanup env now manifestArg s =
     (case (case manifestArg of Some m \<Rightarrow> Inr (Some m) | None \<Rightarrow> readManifestFile s) of
        Inl err \<Rightarrow> (Inl err, s)
      | Inr None \<Rightarrow> (Inr noCleanup, s)
      | Inr (Some manifest) \<Rightarrow>
          let targetSize = real_of_int (maxSizeOrDefault manifest) * CLEANUP_TARGET;
              sorted = sort_key m_lastAccessedAt (map snd (entries manifest))
          in case performCleanup_loop env targetSize sorted (manifest, s, totalSize manifest, 0, 0) of
               (manifest1, s1, currentSize, removed, freed) \<Rightarrow>
                 (case writeManifestFile env
                         (manifest1\<lparr>totalSize := currentSize, lastCleanup := Some now\<rparr>) s1 of
                    (Some err, s2) \<Rightarrow> (Inl err, s2)
                  | (None, s2) \<Rightarrow>
                      (Inr \<lparr>entriesRemoved = removed, bytesFreed = freed,
                            newTotalSize = currentSize\<rparr>, s2)))"

definition cleanupIfNeeded :: "env \<Rightarrow> timestamp \<Rightarrow> fs \<Rightarrow> (error + cleanup_result option) \<times> fs" where
  "cleanupIfNeeded env now s =
     (case readManifestFile s of
        Inl err \<Rightarrow> (Inl err, s)
      | Inr None \<Rightarrow> (Inr None, s)
      | Inr (Some manifest) \<Rightarrow>
          let threshold = real_of_int (maxSizeOrDefault manifest) * CLEANUP_THRESHOLD
          in if real_of_int (totalSize manifest) < threshold then (Inr None, s)
             else case performCleanup env now (Some manifest) s of
                    (Inl err, s') \<Rightarrow> (Inl err, s')
                  | (Inr r, s') \<Rightarrow> (Inr (Some r), s'))"

text \<open>The loop of \<^verbatim>\<open>purgeExpired\<close> over \<^verbatim>\<open>Object.entries(manifest.entries)\<close>; the loop
  state is (manifest, file system, entriesRemoved, bytesFreed); \<open>swr\<close> is the parameter
  \<^verbatim>\<open>defaultSWR\<close>.\<close>

fun purgeExpired_loop ::
  "env \<Rightarrow> timestamp \<Rightarrow> int \<Rightarrow> (string \<times> manifest_entry) list \<Rightarrow> cache_manifest \<times> fs \<times> nat \<times> int
     \<Rightarrow> cache_manifest \<times> fs \<times> nat \<times> int" where
  "purgeExpired_loop env now swr [] st = st"
| "purgeExpired_loop env now swr ((filePath, entry) # rest) (manifest, s, removed, freed) =
     (if now > m_expiresAt entry + swr
      then case unlinkIfExists env filePath s of
             None \<Rightarrow> purgeExpired_loop env now swr rest (manifest, s, removed, freed)
           | Some s' \<Rightarrow>
               purgeExpired_loop env now swr rest
                 (manifest\<lparr>entries := AList.delete filePath (entries manifest)\<rparr>, s',
                  Suc removed, freed + m_size entry)
      else purgeExpired_loop env now swr rest (manifest, s, removed, freed))"

definition purgeExpired :: "env \<Rightarrow> timestamp \<Rightarrow> int \<Rightarrow> fs \<Rightarrow> (error + cleanup_result) \<times> fs" where
  "purgeExpired env now swr s =
     (case readManifestFile s of
        Inl err \<Rightarrow> (Inl err, s)
      | Inr None \<Rightarrow> (Inr noCleanup, s)
      | Inr (Some manifest) \<Rightarrow>
          (case purgeExpired_loop env now swr (entries manifest) (manifest, s, 0, 0) of
             (manifest1, s1, removed, freed) \<Rightarrow>
               let manifest2 = manifest1\<lparr>totalSize := totalSize manifest1 - freed,
                                         lastCleanup := Some now\<rparr>
               in case writeManifestFile env manifest2 s1 of
                    (Some err, s2) \<Rightarrow> (Inl err, s2)
                  | (None, s2) \<Rightarrow>
                      (Inr \<lparr>entriesRemoved = removed, bytesFreed = freed,
                            newTotalSize = totalSize manifest2\<rparr>, s2)))"

text \<open>
  \<^verbatim>\<open>clearAll\<close> and \<^verbatim>\<open>clearNamespace\<close>. After the manifest is written the namespace
  directories are removed recursively (\<^verbatim>\<open>rmSync\<close> with \<^verbatim>\<open>force\<close>), which takes every
  file below them; \<open>ns\<close> is the parameter \<^verbatim>\<open>namespace\<close>.
\<close>

fun clearAll_loop ::
  "env \<Rightarrow> (string \<times> manifest_entry) list \<Rightarrow> fs \<times> nat \<times> int \<Rightarrow> fs \<times> nat \<times> int" where
  "clearAll_loop env [] st = st"
| "clearAll_loop env ((filePath, entry) # rest) (s, removed, freed) =
     (case unlinkIfExists env filePath s of
        None \<Rightarrow> clearAll_loop env rest (s, removed, freed)
      | Some s' \<Rightarrow> clearAll_loop env rest (s', Suc removed, freed + m_size entry))"

definition clearAll :: "env \<Rightarrow> timestamp \<Rightarrow> fs \<Rightarrow> (error + cleanup_result) \<times> fs" where
  "clearAll env now s =
     (case readManifestFile s of
        Inl err \<Rightarrow> (Inl err, s)
      | Inr None \<Rightarrow> (Inr noCleanup, s)
      | Inr (Some manifest) \<Rightarrow>
          (case clearAll_loop env (entries manifest) (s, 0, 0) of
             (s1, removed, freed) \<Rightarrow>
               let newManifest = \<lparr>version = version manifest, totalSize = 0,
                                  maxSize = maxSize manifest, entries = [],
                                  lastCleanup = Some now\<rparr>
               in case writeManifestFile env newManifest s1 of
                    (Some err, s2) \<Rightarrow> (Inl err, s2)
                  | (None, s2) \<Rightarrow>
                      (Inr \<lparr>entriesRemoved = removed, bytesFreed = freed, newTotalSize = 0\<rparr>,
                       s2\<lparr>entry_files := (\<lambda>_. None)\<rparr>)))"

fun clearNamespace_loop ::
  "env \<Rightarrow> string \<Rightarrow> (string \<times> manifest_entry) list \<Rightarrow> cache_manifest \<times> fs \<times> nat \<times> int
     \<Rightarrow> cache_manifest \<times> fs \<times> nat \<times> int" where
  "clearNamespace_loop env ns [] st = st"
| "clearNamespace_loop env ns ((filePath, entry) # rest) (manifest, s, removed, freed) =
     (if m_namespace entry = ns
      then case unlinkIfExists env filePath s of
             None \<Rightarrow> clearNamespace_loop env ns rest (manifest, s, removed, freed)
           | Some s' \<Rightarrow>
               clearNamespace_loop env ns rest
                 (manifest\<lparr>entries := AList.delete filePath (entries manifest)\<rparr>, s',
                  Suc removed, freed + m_size entry)
      else clearNamespace_loop env ns rest (manifest, s, removed, freed))"

definition inDirectory :: "string \<Rightarrow> string \<Rightarrow> bool" where
  "inDirectory dir filePath \<longleftrightarrow> take (length dir + 1) filePath = dir @ ''/''"

definition clearNamespace :: "env \<Rightarrow> string \<Rightarrow> fs \<Rightarrow> (error + cleanup_result) \<times> fs" where
  "clearNamespace env ns s =
     (case readManifestFile s of
        Inl err \<Rightarrow> (Inl err, s)
      | Inr None \<Rightarrow> (Inr noCleanup, s)
      | Inr (Some manifest) \<Rightarrow>
          (case clearNamespace_loop env ns (entries manifest) (manifest, s, 0, 0) of
             (manifest1, s1, removed, freed) \<Rightarrow>
               let manifest2 = manifest1\<lparr>totalSize := totalSize manifest1 - freed\<rparr>
               in case writeManifestFile env manifest2 s1 of
                    (Some err, s2) \<Rightarrow> (Inl err, s2)
                  | (None, s2) \<Rightarrow>
                      (Inr \<lparr>entriesRemoved = removed, bytesFreed = freed,
                            newTotalSize = totalSize manifest2\<rparr>,
                       s2\<lparr>entry_files :=
                            (\<lambda>p. if inDirectory ns p then None else entry_files s2 p)\<rparr>)))"

section \<open>Writing: set, getOrFetch, invalidatePattern, clear (cache.ts)\<close>

text \<open>\<^verbatim>\<open>...(options?.etag && { etag: options.etag })\<close>: an empty string is falsy.\<close>

definition truthy :: "string option \<Rightarrow> string option" where
  "truthy v = (case v of Some x \<Rightarrow> (if x = [] then None else Some x) | None \<Rightarrow> None)"

text \<open>
  \<^verbatim>\<open>set\<close>, called at the instant \<open>now\<close>, with \<open>v\<close> the JSON text of \<^verbatim>\<open>data\<close>. The result
  is the rejection of the promise, if any. The manifest is saved before the entry file
  is written, and \<^verbatim>\<open>cleanupIfNeeded\<close> runs last. Every clock reading made during one
  call yields the call's instant.
\<close>

definition set_entry ::
  "env \<Rightarrow> plugin_cache \<Rightarrow> timestamp \<Rightarrow> string \<Rightarrow> json \<Rightarrow> 'z set_options_scheme \<Rightarrow> fs
     \<Rightarrow> error option \<times> fs" where
  "set_entry env c now k v options s =
     (if disabled c then (None, s)
      else
        let serialized = v;
            size_v = int (length serialized)
        in if size_v > maxEntrySize c then (None, s)
           else
             let ttl = orDefault (s_ttl options) (defaultTTL c);
                 expiresAt = now + ttl;
                 entry = \<lparr>e_data = v, e_createdAt = now, e_lastAccessedAt = now,
                          e_expiresAt = expiresAt, e_etag = truthy (s_etag options),
                          e_lastModified = truthy (s_lastModified options),
                          e_version = truthy (s_version options), e_size = size_v\<rparr>;
                 filePath = getFilePath c k;
                 manifest = getManifest s;
                 oldSize = (case map_of (entries manifest) filePath of
                              Some oldEntry \<Rightarrow> m_size oldEntry | None \<Rightarrow> 0);
                 row = \<lparr>m_filePath = filePath, m_namespace = namespace c, m_key = k,
                        m_size = size_v, m_lastAccessedAt = e_lastAccessedAt entry,
                        m_expiresAt = e_expiresAt entry\<rparr>
             in case saveManifest env
                       (manifest\<lparr>entries := AList.update filePath row (entries manifest),
                                 totalSize := totalSize manifest - oldSize + size_v\<rparr>) s of
                  (Some err, s1) \<Rightarrow> (Some err, s1)
                | (None, s1) \<Rightarrow>
                    (case writeFileSync (write_fault env (EntryPath filePath)) entry
                            (entry_files s1 filePath) of
                       (Some err, f) \<Rightarrow> (Some err, s1\<lparr>entry_files := (entry_files s1)(filePath := f)\<rparr>)
                     | (None, f) \<Rightarrow>
                         (case cleanupIfNeeded env now
                                 (s1\<lparr>entry_files := (entry_files s1)(filePath := f)\<rparr>) of
                            (Inl err, s3) \<Rightarrow> (Some err, s3)
                          | (Inr _, s3) \<Rightarrow> (None, s3))))"


text \<open>\<^verbatim>\<open>invalidatePattern\<close>; the compiled pattern is its \<^verbatim>\<open>test\<close> predicate on keys.\<close>

fun invalidatePattern_loop ::
  "env \<Rightarrow> plugin_cache \<Rightarrow> (string \<Rightarrow> bool) \<Rightarrow> (string \<times> manifest_entry) list \<Rightarrow> fs \<times> nat
     \<Rightarrow> fs \<times> nat" where
  "invalidatePattern_loop env c regex [] st = st"
| "invalidatePattern_loop env c regex ((filePath, entry) # rest) (s, count) =
     (if m_namespace entry = namespace c \<and> regex (m_key entry)
      then case invalidate env c (m_key entry) s of
             (True, s') \<Rightarrow> invalidatePattern_loop env c regex rest (s', Suc count)
           | (False, s') \<Rightarrow> invalidatePattern_loop env c regex rest (s', count)
      else invalidatePattern_loop env c regex rest (s, count))"

definition invalidatePattern :: "env \<Rightarrow> plugin_cache \<Rightarrow> (string \<Rightarrow> bool) \<Rightarrow> fs \<Rightarrow> nat \<times> fs" where
  "invalidatePattern env c regex s =
     (if disabled c then (0, s)
      else case invalidatePattern_loop env c regex (entries (getManifest s)) (s, 0) of
             (s', count) \<Rightarrow> (count, s'))"

fun clear_loop ::
  "env \<Rightarrow> plugin_cache \<Rightarrow> (string \<times> manifest_entry) list \<Rightarrow> cache_manifest \<times> fs \<times> nat \<times> int
     \<Rightarrow> cache_manifest \<times> fs \<times> nat \<times> int" where
  "clear_loop env c [] st = st"
| "clear_loop env c ((filePath, entry) # rest) (manifest, s, count, freedSize) =
     (if m_namespace entry = namespace c
      then case unlinkIfExists env filePath s of
             None \<Rightarrow> clear_loop env c rest (manifest, s, count, freedSize)
           | Some s' \<Rightarrow>
               clear_loop env c rest
                 (manifest\<lparr>entries := AList.delete filePath (entries manifest)\<rparr>, s',
                  Suc count, freedSize + m_size entry)
      else clear_loop env c rest (manifest, s, count, freedSize))"

definition clear :: "env \<Rightarrow> plugin_cache \<Rightarrow> fs \<Rightarrow> (error + nat) \<times> fs" where
  "clear env c s =
     (if disabled c then (Inr 0, s)
      else
        let manifest = getManifest s
        in case clear_loop env c (entries manifest) (manifest, s, 0, 0) of
             (manifest1, s1, count, freedSize) \<Rightarrow>
               (case saveManifest env (manifest1\<lparr>totalSize := totalSize manifest1 - freedSize\<rparr>) s1 of
                  (Some err, s2) \<Rightarrow> (Inl err, s2)
                | (None, s2) \<Rightarrow> (Inr count, s2)))"

section \<open>Sequences of operations\<close>

text \<open>
  The calls a single process makes, each with the cache instance it is made on and the
  instant it is made at. \<open>Cleanup\<close> is threshold cleanup invoked on its own
  (\<^verbatim>\<open>performCleanup(cacheDir)\<close>); the cleanup that follows a write is part of \<open>Set\<close>.
  None of these calls removes a directory.
\<close>

datatype operation =
    Set plugin_cache timestamp string json set_options
  | Get plugin_cache timestamp string get_options
  | Invalidate plugin_cache string
  | InvalidatePattern plugin_cache "string \<Rightarrow> bool"
  | Clear plugin_cache
  | Cleanup timestamp
  | PurgeExpired timestamp int

fun step :: "env \<Rightarrow> operation \<Rightarrow> fs \<Rightarrow> fs" where
  "step env (Set c now k v options) s = snd (set_entry env c now k v options s)"
| "step env (Get c now k options) s = snd (get env c now k options s)"
| "step env (Invalidate c k) s = snd (invalidate env c k s)"
| "step env (InvalidatePattern c regex) s = snd (invalidatePattern env c regex s)"
| "step env (Clear c) s = snd (clear env c s)"
| "step env (Cleanup now) s = snd (performCleanup env now None s)"
| "step env (PurgeExpired now swr) s = snd (purgeExpired env now swr s)"

fun run :: "env \<Rightarrow> operation list \<Rightarrow> fs \<Rightarrow> fs" where
  "run env [] s = s"
| "run env (op # ops) s = run env ops (step env op s)"

text \<open>The sum of \<^verbatim>\<open>size\<close> over the rows of a manifest.\<close>

definition entriesSize :: "(string \<times> manifest_entry) list \<Rightarrow> int" where
  "entriesSize rows = sum_list (map (\<lambda>r. m_size (snd r)) rows)"

text \<open>
  What the operations keep true of the manifest rows and the entry files: the total is the
  sum of the row sizes, no path has two rows, every row records its own path, and an
  entry file that has a row carries the row's size.
\<close>

definition consistent ::
  "int \<Rightarrow> (string \<times> manifest_entry) list \<Rightarrow> (string \<Rightarrow> cache_entry content option) \<Rightarrow> bool" where
  "consistent n rows files \<longleftrightarrow>
     n = entriesSize rows \<and> distinct (map fst rows) \<and>
     (\<forall>r \<in> set rows. m_filePath (snd r) = fst r \<and>
        (\<forall>e. files (fst r) = Some (Json e) \<longrightarrow> e_size e = m_size (snd r)))"

definition fsConsistent :: "fs \<Rightarrow> bool" where
  "fsConsistent s \<longleftrightarrow>
     consistent (totalSize (getManifest s)) (entries (getManifest s)) (entry_files s)"

section \<open>Example values\<close>

definition exampleCache :: plugin_cache where
  "exampleCache =
     PluginCache \<lparr>cfg_namespace = ''p'', cfg_defaultTTL = None,
                  cfg_defaultStaleWhileRevalidate = None, cfg_maxEntrySize = None,
                  cfg_disabled = None\<rparr>"

definition emptyFs :: fs where
  "emptyFs = \<lparr>manifest_file = None, temp_files = (\<lambda>_. None), entry_files = (\<lambda>_. None)\<rparr>"

definition noSetOptions :: set_options where
  "noSetOptions = \<lparr>s_ttl = None, s_etag = None, s_lastModified = None, s_version = None\<rparr>"




text \<open>A manifest filled to its budget of ten bytes: three rows, listed in the order
  \<open>c\<close>, \<open>a\<close>, \<open>b\<close> and last accessed in the order \<open>a\<close>, \<open>b\<close>, \<open>c\<close>.\<close>

definition exampleRow :: "string \<Rightarrow> int \<Rightarrow> timestamp \<Rightarrow> string \<times> manifest_entry" where
  "exampleRow k n t =
     (getFilePath exampleCache k,
      \<lparr>m_filePath = getFilePath exampleCache k, m_namespace = ''p'', m_key = k, m_size = n,
       m_lastAccessedAt = t, m_expiresAt = t + 300000\<rparr>)"

definition fullManifest :: cache_manifest where
  "fullManifest =
     \<lparr>version = 1, totalSize = 10, maxSize = 10,
      entries = [exampleRow ''c'' 3 3, exampleRow ''a'' 4 1, exampleRow ''b'' 3 2],
      lastCleanup = None\<rparr>"

definition fullFs :: fs where
  "fullFs = emptyFs\<lparr>manifest_file := Some (Json fullManifest)\<rparr>"

text \<open>The cache root after one \<^verbatim>\<open>set\<close> at instant 0 with the default TTL, and the entry
  that call writes.\<close>

definition storedFs :: fs where
  "storedFs = snd (set_entry (no_faults 1) exampleCache 0 ''k'' ''12345'' noSetOptions emptyFs)"




text \<open>An environment in which a direct write of \<^verbatim>\<open>manifest.json\<close> fails part-way, and
  nothing else fails.\<close>

definition tornManifestWrite :: env where
  "tornManifestWrite =
     (no_faults 1)\<lparr>write_fault := (\<lambda>x. if x = ManifestPath then Some Partial else None)\<rparr>"



section \<open>Loading the manifest\<close>


section \<open>Oversized values\<close>

text \<open>
  C9. A value whose serialised size exceeds the per-entry maximum (10 MiB unless
  configured) makes \<^verbatim>\<open>set\<close> a no-op that does not raise: the file system, and with it
  every entry file and the manifest, is returned as it was, whatever the environment.
\<close>

theorem set_oversized_is_noop:
  assumes "int (length v) > maxEntrySize c"
  shows "set_entry env c now k v options s = (None, s) \<and>
         maxEntrySize (PluginCache (config\<lparr>cfg_maxEntrySize := None\<rparr>)) = 10 * 1024 * 1024"
  using assms
  by (simp add: set_entry_def Let_def PluginCache_def orDefault_def DEFAULT_MAX_ENTRY_SIZE_def)

theorem set_oversized_is_noop_witness:
  "int (length ''12345678901'') > maxEntrySize (exampleCache\<lparr>maxEntrySize := 10\<rparr>) \<and>
   set_entry (no_faults 1) (exampleCache\<lparr>maxEntrySize := 10\<rparr>) 0 ''k'' ''12345678901''
     noSetOptions emptyFs = (None, emptyFs)"
  using set_oversized_is_noop [of "exampleCache\<lparr>maxEntrySize := 10\<rparr>" "''12345678901''"
      "no_faults 1" 0 "''k''" noSetOptions emptyFs]
  by simp

section \<open>The ttl option of get\<close>

text \<open>
  C10. Two calls of \<^verbatim>\<open>get\<close> that differ only in the \<^verbatim>\<open>ttl\<close> option return the same
  result and leave the same file system: freshness is decided by the stored
  \<^verbatim>\<open>expiresAt\<close> and the stale-while-revalidate option alone.
\<close>

theorem get_ignores_ttl_option:
  "get env c now k (options\<lparr>g_ttl := t1\<rparr>) s = get env c now k (options\<lparr>g_ttl := t2\<rparr>) s"
  by (simp add: get_def Let_def split: option.split content.split prod.split)

section \<open>The fault-free environment\<close>

text \<open>With no failing call, the file-system primitives have one outcome each.\<close>

lemma no_faults_simps [simp]:
  "pid (no_faults p) = p" "write_fault (no_faults p) x = None"
  "rename_fails (no_faults p) = False" "unlink_fails (no_faults p) x = False"
  by (simp_all add: no_faults_def)


lemma writeManifestFile_ok:
  "writeManifestFile (no_faults p) m s = (None, s\<lparr>manifest_file := Some (Json m)\<rparr>)"
  by (simp add: writeManifestFile_def)

lemma unlinkIfExists_ok:
  "unlinkIfExists (no_faults p) q s = Some (s\<lparr>entry_files := (entry_files s)(q := None)\<rparr>)"
  by (cases s) (auto simp: unlinkIfExists_def fun_upd_idem)

lemma getManifest_simps [simp]:
  "getManifest (s\<lparr>manifest_file := Some (Json m)\<rparr>) = m"
  "getManifest (s\<lparr>entry_files := f\<rparr>) = getManifest s"
  "getManifest (s\<lparr>temp_files := t\<rparr>) = getManifest s"
  by (simp_all add: getManifest_def)

section \<open>Size accounting\<close>

text \<open>
  Row sums under assignment and deletion, then the preservation of \<open>consistent\<close> by each
  operation in the fault-free environment, the two purges of cleanup.ts that remove
  directories included.
\<close>

lemma entriesSize_simps [simp]:
  "entriesSize [] = 0" "entriesSize (r # rows) = m_size (snd r) + entriesSize rows"
  by (simp_all add: entriesSize_def)


lemma entriesSize_delete:
  "distinct (map fst rows) \<Longrightarrow>
   entriesSize (AList.delete q rows) =
     entriesSize rows - (case map_of rows q of Some old \<Rightarrow> m_size old | None \<Rightarrow> 0)"
  by (induction rows) (force split: option.splits simp: map_of_eq_None_iff)+


lemma set_delete_conv: "set (AList.delete q rows) = {x \<in> set rows. fst x \<noteq> q}"
  by (auto simp: AList.delete_eq)


lemma consistent_delete:
  assumes "consistent n rows files" "map_of rows q = Some r"
  shows "consistent (n - m_size r) (AList.delete q rows) (files(q := None))"
  using assms
  by (auto simp: consistent_def entriesSize_delete distinct_delete set_delete_conv)














lemma readManifestFile_cases:
  "(readManifestFile s = Inr None \<and> manifest_file s = None) \<or>
   (readManifestFile s = Inl SyntaxError \<and> manifest_file s = Some Unparsable) \<or>
   (readManifestFile s = Inr (Some (getManifest s)) \<and> manifest_file s = Some (Json (getManifest s)))"
  by (auto simp: readManifestFile_def getManifest_def split: option.splits content.splits)




lemma rows_rest:
  assumes "\<forall>r \<in> set ((q, x) # xs). map_of rows (fst r) = Some (snd r)"
    and "distinct (map fst ((q, x) # xs))"
  shows "\<forall>r \<in> set xs. map_of (AList.delete q rows) (fst r) = Some (snd r)"
proof
  fix r assume r: "r \<in> set xs"
  then have "fst r \<noteq> q" using assms(2) by (force simp: image_iff)
  then show "map_of (AList.delete q rows) (fst r) = Some (snd r)"
    using assms(1) r by simp
qed


lemma consistent_rows_lookup:
  assumes "consistent n rows files"
  shows "\<forall>r \<in> set rows. map_of rows (fst r) = Some (snd r)"
  using assms by (auto simp: consistent_def)



lemma clearNamespace_loop_consistent:
  assumes "consistent (T - freed) (entries m) (entry_files s)"
    and "\<forall>r \<in> set xs. map_of (entries m) (fst r) = Some (snd r)"
    and "distinct (map fst xs)"
    and "clearNamespace_loop (no_faults p) ns xs (m, s, count, freed) = (m', s', count', freed')"
  shows "consistent (T - freed') (entries m') (entry_files s') \<and> totalSize m' = totalSize m"
  using assms
proof (induction xs arbitrary: m s count freed)
  case Nil
  then show ?case by simp
next
  case (Cons a xs)
  obtain q x where a: "a = (q, x)" by (cases a)
  show ?case
  proof (cases "m_namespace x = ns")
    case False
    have run: "clearNamespace_loop (no_faults p) ns xs (m, s, count, freed) =
               (m', s', count', freed')"
      using Cons.prems(4) False a by simp
    have rest: "\<forall>r \<in> set xs. map_of (entries m) (fst r) = Some (snd r)"
      using Cons.prems(2) by simp
    show ?thesis
      using Cons.IH [OF Cons.prems(1) rest _ run] Cons.prems(3) by simp
  next
    case True
    let ?m1 = "m\<lparr>entries := AList.delete q (entries m)\<rparr>"
    let ?s1 = "s\<lparr>entry_files := (entry_files s)(q := None)\<rparr>"
    have row: "map_of (entries m) q = Some x" using Cons.prems(2) a by simp
    have c1: "consistent (T - (freed + m_size x)) (entries ?m1) (entry_files ?s1)"
      using consistent_delete [OF Cons.prems(1) row] by (simp add: algebra_simps)
    have rest: "\<forall>r \<in> set xs. map_of (entries ?m1) (fst r) = Some (snd r)"
      using rows_rest [of q x xs "entries m"] Cons.prems(2,3) a by simp
    have run: "clearNamespace_loop (no_faults p) ns xs
                 (?m1, ?s1, Suc count, freed + m_size x) = (m', s', count', freed')"
      using Cons.prems(4) True a by (simp add: unlinkIfExists_ok)
    show ?thesis
      using Cons.IH [OF c1 rest _ run] Cons.prems(3) by simp
  qed
qed

lemma consistent_fewer_files:
  assumes "consistent n rows files" "\<forall>q e. files' q = Some (Json e) \<longrightarrow> files q = Some (Json e)"
  shows "consistent n rows files'"
  using assms by (auto simp: consistent_def)


lemma clearNamespace_consistent:
  assumes "fsConsistent s"
  shows "fsConsistent (snd (clearNamespace (no_faults p) ns s))"
proof -
  let ?m = "getManifest s"
  obtain m1 s1 n1 f1 where
    loop: "clearNamespace_loop (no_faults p) ns (entries ?m) (?m, s, 0, 0) = (m1, s1, n1, f1)"
    by (metis prod_cases4)
  have c0: "consistent (totalSize ?m - 0) (entries ?m) (entry_files s)"
    using assms by (simp add: fsConsistent_def)
  have "consistent (totalSize ?m - f1) (entries m1) (entry_files s1) \<and> totalSize m1 = totalSize ?m"
    using clearNamespace_loop_consistent [OF c0 _ _ loop] consistent_rows_lookup [of _ "entries ?m"] c0
    by (simp add: consistent_def)
  then have "consistent (totalSize m1 - f1) (entries m1)
               (\<lambda>q. if inDirectory ns q then None else entry_files s1 q)"
    using consistent_fewer_files [of _ _ "entry_files s1"] by simp
  then have "fsConsistent (snd (clearNamespace (no_faults p) ns s))"
    if "readManifestFile s = Inr (Some ?m)"
    using loop that
    by (simp add: clearNamespace_def Let_def writeManifestFile_ok fsConsistent_def cong: if_cong)
  then show ?thesis
    using readManifestFile_cases [of s] assms by (auto simp: clearNamespace_def)
qed

lemma clearAll_consistent:
  assumes "fsConsistent s"
  shows "fsConsistent (snd (clearAll (no_faults p) now s))"
proof -
  have "fsConsistent (snd (clearAll (no_faults p) now s))"
    if "readManifestFile s = Inr (Some (getManifest s))"
    using that
    by (simp add: clearAll_def Let_def writeManifestFile_ok fsConsistent_def consistent_def
        split: prod.splits)
  then show ?thesis
    using readManifestFile_cases [of s] assms by (auto simp: clearAll_def)
qed







section \<open>Threshold cleanup\<close>

text \<open>The loop of \<^verbatim>\<open>performCleanup\<close> removes a prefix of the sorted rows: the shortest one
  after which the running size is at or below the target, or all of them.\<close>

lemma fs_entry_files_same [simp]: "s\<lparr>entry_files := (\<lambda>q. entry_files s q)\<rparr> = s"
  by (cases s) simp

lemma manifest_entries_same [simp]: "m\<lparr>entries := entries m\<rparr> = (m :: cache_manifest)"
  by (cases m) simp







section \<open>Reading: freshness, staleness, expiry\<close>






section \<open>Writing and reading back\<close>











section \<open>getOrFetch\<close>








section \<open>Persisting the manifest\<close>

text \<open>\<^verbatim>\<open>saveManifest\<close> of cache.ts never leaves a partial manifest: whatever fails, the
  manifest file is the old one or the complete new one, and on failure the temporary
  file is removed unless its removal fails too.\<close>

lemma saveManifest_atomic:
  "(manifest_file (snd (saveManifest env m s)) = manifest_file s \<or>
    manifest_file (snd (saveManifest env m s)) = Some (Json m)) \<and>
   (fst (saveManifest env m s) \<noteq> None \<longrightarrow>
      manifest_file (snd (saveManifest env m s)) = manifest_file s \<and>
      (\<not> unlink_fails env (TempPath (pid env)) \<longrightarrow>
         temp_files (snd (saveManifest env m s)) (pid env) = None))"
proof (cases "write_fault env (TempPath (pid env))")
  case None
  then show ?thesis by (simp add: saveManifest_def removeTemp_def)
next
  case (Some flt)
  then show ?thesis by (cases flt) (simp_all add: saveManifest_def removeTemp_def)
qed

text \<open>
  C3. The claim holds for the writes made through \<^verbatim>\<open>saveManifest\<close> only. The four
  functions of cleanup.ts write \<^verbatim>\<open>manifest.json\<close> in place: when that write fails
  part-way during threshold cleanup, called directly or at the end of a \<^verbatim>\<open>set\<close>, the
  failure is propagated and the manifest left on disk is truncated, so the next load
  sees an empty cache. Expiry purge, namespace purge and full purge leave a truncated
  manifest in the same way.
\<close>

theorem cleanup_manifest_write_not_atomic:
  "fst (performCleanup tornManifestWrite 100 None fullFs) = Inl IOError \<and>
   manifest_file (snd (performCleanup tornManifestWrite 100 None fullFs)) = Some Unparsable \<and>
   fst (set_entry tornManifestWrite exampleCache 100 ''d'' ''1'' noSetOptions fullFs) = Some IOError \<and>
   manifest_file (snd (set_entry tornManifestWrite exampleCache 100 ''d'' ''1'' noSetOptions fullFs)) =
     Some Unparsable \<and>
   getManifest (snd (set_entry tornManifestWrite exampleCache 100 ''d'' ''1'' noSetOptions fullFs)) =
     emptyManifest \<and>
   manifest_file (snd (purgeExpired tornManifestWrite 100 0 fullFs)) = Some Unparsable \<and>
   manifest_file storedFs \<noteq> Some Unparsable \<and>
   manifest_file (snd (purgeExpired tornManifestWrite 100 86400000 storedFs)) = Some Unparsable \<and>
   manifest_file (snd (clearNamespace tornManifestWrite ''p'' fullFs)) = Some Unparsable \<and>
   manifest_file (snd (clearAll tornManifestWrite 100 fullFs)) = Some Unparsable"
  by code_simp

end
